theory Spec2Isabelle
  imports Complex_Main
begin

section \<open>The drawing canvas (class DrawingCanvas)\<close>

text \<open>
  The annotator is a single-threaded Tk program. Python floats are modelled by the
  rationals, Python ints by \<open>int\<close>, screen and image coordinates by \<open>rat\<close>.
  An exception of the source is a value of type \<open>error\<close>.
\<close>

datatype error = KeyError | IndexError | ValueError | ZeroDivisionError | AttributeError

datatype DrawMode = NONE | RECT | POLY | POINT

text \<open>
  What the Tk canvas itself holds: the items created and not yet deleted, each under the
  identifier Tk gave it. Tk numbers the items of a canvas 1, 2, 3, ... and never uses a
  number twice, so an identifier is a positive integer and is truthy in Python.
\<close>

datatype tk_shape =
    Tk_rectangle "rat list"
  | Tk_polygon "rat list"
  | Tk_oval "rat list"
  | Tk_image rat rat

record DrawingCanvas =
  image_item :: "nat option"
  current_mode :: "DrawMode option"
  current_points :: "rat list"
  current_item :: "nat option"
  items :: "nat list"
  tk_items :: "(nat \<times> tk_shape) list"
  tk_next_id :: nat

text \<open>The dictionary \<open>on_right_click\<close> returns; \<open>is_Q\<close> is \<open>None\<close> while the key is absent.\<close>

record draw_item =
  dmode :: DrawMode
  points :: "rat list"
  draw_id :: "nat option"
  is_Q :: "bool option"

definition DrawingCanvas_init :: DrawingCanvas where
  "DrawingCanvas_init =
     \<lparr>image_item = None, current_mode = Some NONE, current_points = [],
      current_item = None, items = [], tk_items = [], tk_next_id = 1\<rparr>"

definition tk_create :: "tk_shape \<Rightarrow> DrawingCanvas \<Rightarrow> nat \<times> DrawingCanvas" where
  "tk_create sh c =
     (tk_next_id c,
      c\<lparr>tk_items := tk_items c @ [(tk_next_id c, sh)], tk_next_id := Suc (tk_next_id c)\<rparr>)"

definition tk_delete :: "nat \<Rightarrow> DrawingCanvas \<Rightarrow> DrawingCanvas" where
  "tk_delete i c = c\<lparr>tk_items := filter (\<lambda>p. fst p \<noteq> i) (tk_items c)\<rparr>"

definition tk_coords :: "nat \<Rightarrow> rat list \<Rightarrow> DrawingCanvas \<Rightarrow> DrawingCanvas" where
  "tk_coords i pts c =
     c\<lparr>tk_items := map (\<lambda>p. if fst p = i then (i, Tk_rectangle pts) else p) (tk_items c)\<rparr>"

text \<open>
  \<open>if self.current_item:\<close> is Python's truth value: \<open>None\<close> and 0 are false.
\<close>

definition clear_item :: "DrawingCanvas \<Rightarrow> DrawingCanvas" where
  "clear_item c =
     (case current_item c of
        None \<Rightarrow> c
      | Some i \<Rightarrow>
          if i \<noteq> 0
          then (tk_delete i c)\<lparr>current_points := [], current_item := None\<rparr>
          else c)"

definition set_mode :: "DrawMode \<Rightarrow> DrawingCanvas \<Rightarrow> DrawingCanvas" where
  "set_mode m c = clear_item (c\<lparr>current_mode := Some m, current_points := []\<rparr>)"

definition on_left_click :: "rat \<Rightarrow> rat \<Rightarrow> DrawingCanvas \<Rightarrow> DrawingCanvas" where
  "on_left_click x y c =
     (if current_mode c = Some NONE then c
      else
        let c1 = clear_item c in
        if current_mode c1 = Some RECT then
          (let pts = [x, y, x, y]; (i, c2) = tk_create (Tk_rectangle pts) c1
           in c2\<lparr>current_points := pts, current_item := Some i\<rparr>)
        else if current_mode c1 = Some POLY then
          (let pts = current_points c1 @ [x, y]; (i, c2) = tk_create (Tk_polygon pts) c1
           in c2\<lparr>current_points := pts, current_item := Some i\<rparr>)
        else if current_mode c1 = Some POINT then
          (let (i, c2) = tk_create (Tk_oval [x - 2, y - 2, x + 2, y + 2]) c1
           in c2\<lparr>current_points := [x, y], current_item := Some i\<rparr>)
        else c1)"

definition on_drag :: "rat \<Rightarrow> rat \<Rightarrow> DrawingCanvas \<Rightarrow> DrawingCanvas" where
  "on_drag x y c =
     (case current_item c of
        None \<Rightarrow> c
      | Some i \<Rightarrow>
          if current_mode c = Some RECT \<and> i \<noteq> 0
          then (let pts = take 2 (current_points c) @ [x, y]
                in (tk_coords i pts c)\<lparr>current_points := pts\<rparr>)
          else c)"

text \<open>
  \<open>on_right_click\<close> ends the drawing. The source sets \<open>current_mode\<close> to Python's
  \<open>None\<close> afterwards (not to \<open>DrawMode.NONE\<close>), which is \<open>None\<close> here. An item is
  only ever current under one of the three drawing modes, so the case of a current
  item with mode \<open>None\<close> does not arise; the model returns nothing there.
\<close>

definition on_right_click :: "DrawingCanvas \<Rightarrow> draw_item option \<times> DrawingCanvas" where
  "on_right_click c =
     (case (current_item c, current_mode c) of
        (None, _) \<Rightarrow> (None, c)
      | (Some i, None) \<Rightarrow> (None, c)
      | (Some i, Some m) \<Rightarrow>
          if m = NONE then (None, c)
          else
            let (j, c1) =
                  (if m = POLY
                   then tk_create (Tk_polygon (current_points c)) (tk_delete i c)
                   else (i, c));
                ret = \<lparr>dmode = m, points = current_points c1, draw_id = Some j, is_Q = None\<rparr>
            in (Some ret,
                c1\<lparr>items := items c1 @ [j], current_item := None,
                   current_mode := None, current_points := []\<rparr>))"

definition load_image :: "rat \<Rightarrow> rat \<Rightarrow> DrawingCanvas \<Rightarrow> DrawingCanvas" where
  "load_image ox oy c =
     (let i = tk_next_id c
      in c\<lparr>image_item := Some i, tk_items := (i, Tk_image ox oy) # tk_items c,
           tk_next_id := Suc i\<rparr>)"

text \<open>
  \<open>load_draw\<close> draws a stored region. It refuses a rectangle that has not four numbers
  and a polygon of fewer than three vertices; for a point, unpacking
  \<open>x, y = pts[:2]\<close> raises ValueError when there are fewer than two numbers.
\<close>

definition load_draw ::
  "DrawMode \<Rightarrow> rat list \<Rightarrow> DrawingCanvas \<Rightarrow> error + (nat option \<times> DrawingCanvas)" where
  "load_draw m pts c =
     (if m = RECT \<and> length pts = 4 then
        (let (i, c1) = tk_create (Tk_rectangle pts) c
         in Inr (Some i, c1\<lparr>items := items c1 @ [i], current_item := None\<rparr>))
      else if m = POLY \<and> 6 \<le> length pts then
        (let (i, c1) = tk_create (Tk_polygon pts) c
         in Inr (Some i, c1\<lparr>items := items c1 @ [i], current_item := None\<rparr>))
      else if m = POINT then
        (case pts of
           x # y # _ \<Rightarrow>
             (let (i, c1) = tk_create (Tk_oval [x - 8, y - 8, x + 8, y + 8]) c
              in Inr (Some i, c1\<lparr>items := items c1 @ [i], current_item := None\<rparr>))
         | _ \<Rightarrow> Inl ValueError)
      else Inr (None, c))"

definition clear_all :: "DrawingCanvas \<Rightarrow> DrawingCanvas" where
  "clear_all c =
     (let c1 = clear_item c
      in (fold tk_delete (items c1) c1)\<lparr>items := []\<rparr>)"

definition delete_item :: "nat \<Rightarrow> DrawingCanvas \<Rightarrow> bool \<times> DrawingCanvas" where
  "delete_item i c =
     (if i \<in> set (items c)
      then (True, (tk_delete i c)\<lparr>items := remove1 i (items c)\<rparr>)
      else (False, c))"

definition reset :: "DrawingCanvas \<Rightarrow> DrawingCanvas" where
  "reset c =
     c\<lparr>tk_items := [], image_item := None, current_mode := Some NONE,
       current_points := [], current_item := None, items := []\<rparr>"

text \<open>The user picks the polygon tool on a fresh canvas and clicks.\<close>

definition poly_clicks :: "(rat \<times> rat) list \<Rightarrow> DrawingCanvas" where
  "poly_clicks ps = fold (\<lambda>p c. on_left_click (fst p) (snd p) c) ps (set_mode POLY DrawingCanvas_init)"


section \<open>The annotation data model\<close>

record VisualAnnotation =
  coords :: "rat list"
  mode :: DrawMode

text \<open>\<open>visual_refs\<close> is \<open>None\<close> for Python's \<open>None\<close>; \<open>text'\<close> is the field \<open>text\<close>.\<close>

record QAAnnotation =
  role :: string
  text' :: string
  visual_refs :: "VisualAnnotation list option"

subsection \<open>The persisted format\<close>

text \<open>
  The document \<open>json.dump\<close> writes and \<open>json.load\<close> reads is modelled as the parsed
  value: a list of dictionaries with the keys the writer produces. The two library
  calls are taken to be inverse to each other on such documents. A key that may be
  absent (\<open>visual_refs\<close>) is an option.
\<close>

record ref_dict =
  j_mode :: string
  j_coords :: "rat list"

record qa_dict =
  j_from :: string
  j_value :: string
  j_visual_refs :: "ref_dict list option"

record image_dict =
  j_image :: string
  j_conversations :: "qa_dict list"

datatype disk_file = Missing | Garbled | Json "image_dict list"

text \<open>\<open>ref.mode.name\<close> and \<open>DrawMode[name]\<close>.\<close>

fun mode_name :: "DrawMode \<Rightarrow> string" where
  "mode_name NONE = ''NONE''"
| "mode_name RECT = ''RECT''"
| "mode_name POLY = ''POLY''"
| "mode_name POINT = ''POINT''"

definition DrawMode_of_name :: "string \<Rightarrow> error + DrawMode" where
  "DrawMode_of_name n =
     (if n = ''NONE'' then Inr NONE
      else if n = ''RECT'' then Inr RECT
      else if n = ''POLY'' then Inr POLY
      else if n = ''POINT'' then Inr POINT
      else Inl KeyError)"

text \<open>Python's \<open>int(round(x))\<close>: to the nearest integer, a tie to the even one.\<close>

definition py_round :: "rat \<Rightarrow> int" where
  "py_round x =
     (let f = \<lfloor>x\<rfloor>; d = x - of_int f
      in if d < 1 / 2 then f
         else if 1 / 2 < d then f + 1
         else if even f then f else f + 1)"

text \<open>Python's \<open>int(x)\<close> on a float: truncation towards zero.\<close>

definition py_int :: "rat \<Rightarrow> int" where
  "py_int x = (if 0 \<le> x then \<lfloor>x\<rfloor> else \<lceil>x\<rceil>)"

text \<open>Python's \<open>xs[i]\<close>: a negative index counts from the end.\<close>

definition py_index :: "'a list \<Rightarrow> int \<Rightarrow> error + 'a" where
  "py_index xs i =
     (if 0 \<le> i \<and> i < int (length xs) then Inr (xs ! nat i)
      else if i < 0 \<and> - int (length xs) \<le> i then Inr (xs ! nat (int (length xs) + i))
      else Inl IndexError)"

subsection \<open>Writing: the body of the \<open>try\<close> in \<open>save_annotations\<close>\<close>

definition ref_to_dict :: "VisualAnnotation \<Rightarrow> ref_dict" where
  "ref_to_dict r =
     \<lparr>j_mode = mode_name (mode r), j_coords = map (\<lambda>x. of_int (py_round x)) (coords r)\<rparr>"

definition qa_to_dict :: "QAAnnotation \<Rightarrow> qa_dict" where
  "qa_to_dict qa =
     \<lparr>j_from = role qa, j_value = text' qa,
      j_visual_refs =
        (case visual_refs qa of
           None \<Rightarrow> None
         | Some rs \<Rightarrow> if rs = [] then None else Some (map ref_to_dict rs))\<rparr>"

definition annotations_data :: "(string \<times> QAAnnotation list) list \<Rightarrow> image_dict list" where
  "annotations_data d =
     map (\<lambda>p. \<lparr>j_image = fst p, j_conversations = map qa_to_dict (snd p)\<rparr>) d"

subsection \<open>Reading: the loops of \<open>load_existing_annotations\<close>\<close>

fun load_refs :: "ref_dict list \<Rightarrow> error + VisualAnnotation list" where
  "load_refs [] = Inr []"
| "load_refs (r # rs) =
     (case DrawMode_of_name (j_mode r) of
        Inl e \<Rightarrow> Inl e
      | Inr m \<Rightarrow>
          (case load_refs rs of
             Inl e \<Rightarrow> Inl e
           | Inr vs \<Rightarrow> Inr (\<lparr>coords = j_coords r, mode = m\<rparr> # vs)))"

fun load_conversations :: "qa_dict list \<Rightarrow> error + QAAnnotation list" where
  "load_conversations [] = Inr []"
| "load_conversations (c # cs) =
     (case (case j_visual_refs c of
              None \<Rightarrow> Inr None
            | Some rs \<Rightarrow> (case load_refs rs of Inl e \<Rightarrow> Inl e | Inr vs \<Rightarrow> Inr (Some vs))) of
        Inl e \<Rightarrow> Inl e
      | Inr refs \<Rightarrow>
          (case load_conversations cs of
             Inl e \<Rightarrow> Inl e
           | Inr qs \<Rightarrow> Inr (\<lparr>role = j_from c, text' = j_value c, visual_refs = refs\<rparr> # qs)))"

subsection \<open>Python dictionaries with insertion order\<close>

fun dict_set :: "'k \<Rightarrow> 'v \<Rightarrow> ('k \<times> 'v) list \<Rightarrow> ('k \<times> 'v) list" where
  "dict_set k v [] = [(k, v)]"
| "dict_set k v (p # ps) = (if fst p = k then (k, v) # ps else p # dict_set k v ps)"

definition dict_del :: "'k \<Rightarrow> ('k \<times> 'v) list \<Rightarrow> ('k \<times> 'v) list" where
  "dict_del k d = filter (\<lambda>p. fst p \<noteq> k) d"


section \<open>The annotator (class ImageQAAnnotator)\<close>

datatype status =
    Ready
  | Folder_loaded string
  | Image_loaded string
  | Annotations_loaded nat
  | Draw_finished draw_item
  | Annotation_out_of_range int
  | Index_out_of_range int
  | Saved string

datatype dialog =
    Warn_open_folder_first
  | Warn_no_images
  | Warn_empty_field
  | Error_load_image
  | Error_load_annotations

text \<open>How a callback ends: it returns, or an exception leaves it.\<close>

datatype outcome = Done | Raised error

text \<open>
  The state of the program. A Python list of turns is an object: \<open>all_annotations\<close>
  and \<open>current_annotation\<close> hold references (addresses) into \<open>heap\<close>, so that two
  names for one list are visible as such. The attributes \<open>x_offset\<close>, \<open>y_offset\<close>,
  \<open>current_img_width\<close> and \<open>current_img_height\<close> do not exist before
  \<open>fit_window\<close> has run (\<open>None\<close>); \<open>images_folder\<close> does not exist before a folder
  was chosen. The surroundings are fields too: the size of the canvas widget, the
  annotation file of each folder (\<open>disk\<close>), and what \<open>Image.open\<close> gives for a
  folder and a file name (the size of the image, or \<open>None\<close> when it fails).
  The list boxes only display this state (\<open>update_qa_list\<close>, \<open>update_image_list\<close>)
  and are not part of it; the row selected in the list of turns is an argument of the
  callbacks that read it.
\<close>

record session =
  image_files :: "string list"
  images_folder :: "string option"
  all_annotations :: "(string \<times> nat) list"
  heap :: "nat \<Rightarrow> QAAnnotation list"
  next_addr :: nat
  current_image_index :: int
  current_original_image :: "(int \<times> int) option"
  current_draw_info :: "draw_item list"
  current_annotation :: nat
  is_query_input :: bool
  zoom_factor :: rat
  fit_to_window :: bool
  current_img_width :: "int option"
  current_img_height :: "int option"
  x_offset :: "rat option"
  y_offset :: "rat option"
  drawing_canvas :: DrawingCanvas
  question_entry :: string
  answer_entry :: string
  status_var :: status
  dialogs :: "dialog list"
  canvas_width :: int
  canvas_height :: int
  disk :: "string \<Rightarrow> disk_file"
  image_open :: "string \<Rightarrow> string \<Rightarrow> (int \<times> int) option"

definition min_zoom :: rat where
  "min_zoom = 1 / 10"

definition max_zoom :: rat where
  "max_zoom = 5"

definition ImageQAAnnotator_init ::
  "int \<Rightarrow> int \<Rightarrow> (string \<Rightarrow> disk_file) \<Rightarrow> (string \<Rightarrow> string \<Rightarrow> (int \<times> int) option) \<Rightarrow> session" where
  "ImageQAAnnotator_init w h d io =
     \<lparr>image_files = [], images_folder = None, all_annotations = [],
      heap = (\<lambda>_. []), next_addr = 1, current_image_index = 0,
      current_original_image = None, current_draw_info = [], current_annotation = 0,
      is_query_input = False, zoom_factor = 1, fit_to_window = True,
      current_img_width = None, current_img_height = None,
      x_offset = None, y_offset = None,
      drawing_canvas = DrawingCanvas_init, question_entry = [], answer_entry = [],
      status_var = Ready, dialogs = [],
      canvas_width = w, canvas_height = h, disk = d, image_open = io\<rparr>"

text \<open>The dictionary \<open>all_annotations\<close> by value: every key with the list it refers to.\<close>

definition annotations_of :: "session \<Rightarrow> (string \<times> QAAnnotation list) list" where
  "annotations_of s = map (\<lambda>p. (fst p, heap s (snd p))) (all_annotations s)"

text \<open>A new list object with the given content.\<close>

definition new_list :: "QAAnnotation list \<Rightarrow> session \<Rightarrow> nat \<times> session" where
  "new_list xs s =
     (next_addr s, s\<lparr>heap := (heap s)(next_addr s := xs), next_addr := Suc (next_addr s)\<rparr>)"

subsection \<open>The coordinate transform\<close>

text \<open>
  The two list comprehensions of \<open>on_draw_finished\<close> and \<open>show_qa_pair\<close>: the numbers
  at even positions are x coordinates, those at odd positions y coordinates. The
  division raises ZeroDivisionError when the zoom factor is 0.
\<close>

definition to_image_space :: "rat \<Rightarrow> rat \<Rightarrow> rat \<Rightarrow> rat list \<Rightarrow> error + rat list" where
  "to_image_space z xo yo pts =
     (if z = 0 \<and> pts \<noteq> [] then Inl ZeroDivisionError
      else Inr (map (\<lambda>p. if fst p mod 2 = 0 then (snd p - xo) / z else (snd p - yo) / z)
                  (enumerate 0 pts)))"

definition to_screen_space :: "rat \<Rightarrow> rat \<Rightarrow> rat \<Rightarrow> rat list \<Rightarrow> rat list" where
  "to_screen_space z xo yo pts =
     map (\<lambda>p. if fst p mod 2 = 0 then snd p * z + xo else snd p * z + yo) (enumerate 0 pts)"

text \<open>
  Reading \<open>self.x_offset\<close> and \<open>self.y_offset\<close>: AttributeError before \<open>fit_window\<close>
  has set them (it sets both). An empty list of numbers reads neither.
\<close>

definition offsets :: "session \<Rightarrow> error + (rat \<times> rat)" where
  "offsets s =
     (case (x_offset s, y_offset s) of
        (Some xo, Some yo) \<Rightarrow> Inr (xo, yo)
      | _ \<Rightarrow> Inl AttributeError)"

subsection \<open>Zoom\<close>

text \<open>
  \<open>display_image\<close> empties the canvas and puts the scaled image at the offsets. The
  scaling of the picture itself (PIL) is outside the model.
\<close>

definition display_image :: "session \<Rightarrow> session" where
  "display_image s =
     (case (x_offset s, y_offset s) of
        (Some xo, Some yo) \<Rightarrow> s\<lparr>drawing_canvas := load_image xo yo (reset (drawing_canvas s))\<rparr>
      | _ \<Rightarrow> s)"

definition fit_window :: "session \<Rightarrow> outcome \<times> session" where
  "fit_window s =
     (case current_original_image s of
        None \<Rightarrow> (Done, s)
      | Some (img_width, img_height) \<Rightarrow>
          let s1 = s\<lparr>fit_to_window := True\<rparr> in
          if img_width = 0 \<or> img_height = 0 then (Raised ZeroDivisionError, s1)
          else
            let width_ratio = of_int (canvas_width s1) / of_int img_width;
                height_ratio = of_int (canvas_height s1) / of_int img_height;
                z0 = min width_ratio height_ratio;
                z = (if z0 < min_zoom then min_zoom else z0);
                w = py_int (of_int img_width * z);
                h = py_int (of_int img_height * z);
                s2 = s1\<lparr>zoom_factor := z,
                        current_img_width := Some w, current_img_height := Some h,
                        x_offset := Some (of_int ((canvas_width s1 - w) div 2)),
                        y_offset := Some (of_int ((canvas_height s1 - h) div 2))\<rparr>
            in (Done, (display_image s2)\<lparr>fit_to_window := False\<rparr>))"

text \<open>
  \<open>zoom\<close>: the zoom factor is assigned first; the divisions by the current image
  width and height come after it, so an exception there leaves the new factor in place.
\<close>

definition zoom :: "(rat \<times> rat) option \<Rightarrow> int \<Rightarrow> session \<Rightarrow> outcome \<times> session" where
  "zoom xy scale_up s =
     (case current_original_image s of
        None \<Rightarrow> (Done, s)
      | Some (img_width, img_height) \<Rightarrow>
          let (x, y) =
                (case xy of
                   None \<Rightarrow> (of_int (canvas_width s div 2), of_int (canvas_height s div 2))
                 | Some p \<Rightarrow> p);
              z = (if scale_up = 0 then 1
                   else if 0 < scale_up then min (zoom_factor s * (11 / 10)) max_zoom
                   else max (zoom_factor s / (11 / 10)) min_zoom);
              s1 = s\<lparr>zoom_factor := z\<rparr>
          in
            (case (x_offset s1, y_offset s1, current_img_width s1, current_img_height s1) of
               (Some xo, Some yo, Some cw, Some ch) \<Rightarrow>
                 if cw = 0 \<or> ch = 0 then (Raised ZeroDivisionError, s1)
                 else
                   let pos_x = (x - xo) / of_int cw;
                       pos_y = (y - yo) / of_int ch;
                       w = py_int (of_int img_width * z);
                       h = py_int (of_int img_height * z);
                       s2 = s1\<lparr>current_img_width := Some w, current_img_height := Some h,
                               x_offset := Some (x - of_int (py_int (of_int w * pos_x))),
                               y_offset := Some (y - of_int (py_int (of_int h * pos_y)))\<rparr>
                   in (Done, display_image s2)
             | _ \<Rightarrow> (Raised AttributeError, s1)))"

definition reset_zoom :: "session \<Rightarrow> outcome \<times> session" where
  "reset_zoom s = zoom None 0 s"

definition on_mousewheel :: "rat \<Rightarrow> rat \<Rightarrow> int \<Rightarrow> int \<Rightarrow> session \<Rightarrow> outcome \<times> session" where
  "on_mousewheel x y delta num s =
     (if 0 < delta \<or> num = 4 then zoom (Some (x, y)) 1 s else zoom (Some (x, y)) (- 1) s)"

definition resize_draw_canvas :: "int \<Rightarrow> int \<Rightarrow> session \<Rightarrow> outcome \<times> session" where
  "resize_draw_canvas width height s =
     (case current_original_image s of
        None \<Rightarrow> (Done, s)
      | Some (img_width, img_height) \<Rightarrow>
          if img_width = 0 \<or> img_height = 0 then (Raised ZeroDivisionError, s)
          else
            let z0 = min (of_int width / of_int img_width) (of_int height / of_int img_height)
            in (Done, s\<lparr>zoom_factor := (if z0 < min_zoom then min_zoom else z0)\<rparr>))"


subsection \<open>Regions drawn and regions shown\<close>

definition on_draw_finished :: "session \<Rightarrow> outcome \<times> session" where
  "on_draw_finished s =
     (let (ref, c1) = on_right_click (drawing_canvas s);
          s1 = s\<lparr>drawing_canvas := c1\<rparr>
      in case ref of
           None \<Rightarrow> (Done, s1)
         | Some r \<Rightarrow>
             (case (if points r = [] then Inr []
                    else case offsets s1 of
                           Inl e \<Rightarrow> Inl e
                         | Inr (xo, yo) \<Rightarrow> to_image_space (zoom_factor s1) xo yo (points r)) of
                Inl e \<Rightarrow> (Raised e, s1)
              | Inr pts \<Rightarrow>
                  let r1 = r\<lparr>points := pts, is_Q := Some (is_query_input s1)\<rparr>
                  in (Done, s1\<lparr>current_draw_info := current_draw_info s1 @ [r1],
                                status_var := Draw_finished r1\<rparr>)))"

definition on_click_query_entry :: "session \<Rightarrow> session" where
  "on_click_query_entry s = s\<lparr>is_query_input := True\<rparr>"

definition on_click_anwser_entry :: "session \<Rightarrow> session" where
  "on_click_anwser_entry s = s\<lparr>is_query_input := False\<rparr>"

text \<open>
  The loop of \<open>show_qa_pair\<close> over the regions of one turn: each is drawn by
  \<open>load_draw\<close> at its screen coordinates and recorded in \<open>current_draw_info\<close>, in a
  dictionary with the keys \<open>mode\<close>, \<open>points\<close> and \<open>draw_id\<close> only.
\<close>

fun show_refs :: "VisualAnnotation list \<Rightarrow> session \<Rightarrow> outcome \<times> session" where
  "show_refs [] s = (Done, s)"
| "show_refs (r # rs) s =
     (case (if coords r = [] then Inr []
            else case offsets s of
                   Inl e \<Rightarrow> Inl e
                 | Inr (xo, yo) \<Rightarrow> Inr (to_screen_space (zoom_factor s) xo yo (coords r))) of
        Inl e \<Rightarrow> (Raised e, s)
      | Inr canvas_coords \<Rightarrow>
          (case load_draw (mode r) canvas_coords (drawing_canvas s) of
             Inl e \<Rightarrow> (Raised e, s)
           | Inr (i, c1) \<Rightarrow>
               show_refs rs
                 (s\<lparr>drawing_canvas := c1,
                    current_draw_info := current_draw_info s @
                      [\<lparr>dmode = mode r, points = canvas_coords, draw_id = i, is_Q = None\<rparr>]\<rparr>)))"

definition show_qa_pair :: "int \<Rightarrow> session \<Rightarrow> outcome \<times> session" where
  "show_qa_pair index s =
     (let anns = heap s (current_annotation s) in
      if index < 0 \<or> int (length anns) \<le> index
      then (Done, s\<lparr>status_var := Annotation_out_of_range index\<rparr>)
      else
        let s1 = s\<lparr>drawing_canvas := clear_all (drawing_canvas s)\<rparr>;
            ann = anns ! nat (index div 2 * 2)
        in case visual_refs ann of
             None \<Rightarrow> (Done, s1)
           | Some refs \<Rightarrow> show_refs refs s1)"

subsection \<open>Editing the turns of the current image\<close>

text \<open>\<open>str.strip()\<close> on ASCII text.\<close>

definition is_space :: "char \<Rightarrow> bool" where
  "is_space c = (c \<in> set [CHR 0x09, CHR 0x0A, CHR 0x0B, CHR 0x0C, CHR 0x0D,
                           CHR 0x1C, CHR 0x1D, CHR 0x1E, CHR 0x1F, CHR '' ''])"

definition strip :: "string \<Rightarrow> string" where
  "strip t = rev (dropWhile is_space (rev (dropWhile is_space t)))"

text \<open>
  The loop of \<open>add_qa_pair\<close> over \<open>current_draw_info\<close>: \<open>draw_item["is_Q"]\<close> raises
  KeyError when the dictionary has no such key.
\<close>

fun split_refs ::
  "draw_item list \<Rightarrow> error + (VisualAnnotation list \<times> VisualAnnotation list)" where
  "split_refs [] = Inr ([], [])"
| "split_refs (d # ds) =
     (case is_Q d of
        None \<Rightarrow> Inl KeyError
      | Some q \<Rightarrow>
          (case split_refs ds of
             Inl e \<Rightarrow> Inl e
           | Inr (qs, as) \<Rightarrow>
               let ref = \<lparr>coords = points d, mode = dmode d\<rparr>
               in if q then Inr (ref # qs, as) else Inr (qs, ref # as)))"

definition add_qa_pair :: "session \<Rightarrow> outcome \<times> session" where
  "add_qa_pair s =
     (let question = strip (question_entry s);
          answer = strip (answer_entry s)
      in if question = [] \<or> answer = []
         then (Done, s\<lparr>dialogs := dialogs s @ [Warn_empty_field]\<rparr>)
         else
           case split_refs (current_draw_info s) of
             Inl e \<Rightarrow> (Raised e, s)
           | Inr (visual_refs_query, visual_refs_anwser) \<Rightarrow>
               let question_ann =
                     \<lparr>role = ''human'', text' = question,
                      visual_refs = (if visual_refs_query = [] then None
                                     else Some visual_refs_query)\<rparr>;
                   answer_ann =
                     \<lparr>role = ''gpt'', text' = answer,
                      visual_refs = (if visual_refs_anwser = [] then None
                                     else Some visual_refs_anwser)\<rparr>;
                   a = current_annotation s
               in (Done,
                   s\<lparr>current_draw_info := [],
                     heap := (heap s)(a := heap s a @ [question_ann, answer_ann]),
                     drawing_canvas := clear_all (drawing_canvas s),
                     question_entry := [], answer_entry := []\<rparr>))"

text \<open>
  \<open>delete_qa_pair\<close>: the index is given, or else taken from the selected row of the
  list box (three rows for a pair). The slice is deleted in the list object itself.
\<close>

definition delete_qa_pair :: "nat option \<Rightarrow> nat option \<Rightarrow> session \<Rightarrow> session" where
  "delete_qa_pair index selected s =
     (case (case index of Some i \<Rightarrow> Some i
                        | None \<Rightarrow> (case selected of None \<Rightarrow> None | Some r \<Rightarrow> Some (r div 3))) of
        None \<Rightarrow> s
      | Some i \<Rightarrow>
          let a = current_annotation s
          in s\<lparr>heap := (heap s)(a := take (i * 2) (heap s a) @ drop (i * 2 + 2) (heap s a))\<rparr>)"

definition clear_qa_pairs :: "bool \<Rightarrow> session \<Rightarrow> session" where
  "clear_qa_pairs confirmed s =
     (if confirmed then s\<lparr>heap := (heap s)(current_annotation s := [])\<rparr> else s)"

definition edit_qa_pair :: "nat option \<Rightarrow> session \<Rightarrow> outcome \<times> session" where
  "edit_qa_pair selected s =
     (case selected of
        None \<Rightarrow> (Done, s)
      | Some r \<Rightarrow>
          let index = r div 3;
              anns = heap s (current_annotation s);
              s1 = s\<lparr>question_entry := []\<rparr>
          in if length anns \<le> index * 2 then (Raised IndexError, s1)
             else
               let s2 = s1\<lparr>question_entry := text' (anns ! (index * 2)), answer_entry := []\<rparr>
               in if length anns \<le> index * 2 + 1 then (Raised IndexError, s2)
                  else
                    let s3 = s2\<lparr>answer_entry := text' (anns ! (index * 2 + 1))\<rparr>
                    in (case show_qa_pair (int (index * 2)) s3 of
                          (Raised e, s4) \<Rightarrow> (Raised e, s4)
                        | (Done, s4) \<Rightarrow> (Done, delete_qa_pair (Some index) selected s4)))"


subsection \<open>Images, navigation and persistence\<close>

fun load_items :: "image_dict list \<Rightarrow> session \<Rightarrow> outcome \<times> session" where
  "load_items [] s = (Done, s)"
| "load_items (item # rest) s =
     (case load_conversations (j_conversations item) of
        Inl e \<Rightarrow> (Raised e, s)
      | Inr conversations \<Rightarrow>
          (let (a, s1) = new_list conversations s
           in load_items rest
                (s1\<lparr>all_annotations := dict_set (j_image item) a (all_annotations s1)\<rparr>)))"

definition load_existing_annotations :: "session \<Rightarrow> session" where
  "load_existing_annotations s =
     (case images_folder s of
        None \<Rightarrow> s
      | Some folder \<Rightarrow>
          if folder = [] then s
          else
            (case disk s folder of
               Missing \<Rightarrow> s
             | Garbled \<Rightarrow> s\<lparr>dialogs := dialogs s @ [Error_load_annotations]\<rparr>
             | Json data \<Rightarrow>
                 (case load_items data s of
                    (Raised e, s1) \<Rightarrow> s1\<lparr>dialogs := dialogs s1 @ [Error_load_annotations]\<rparr>
                  | (Done, s1) \<Rightarrow>
                      s1\<lparr>status_var := Annotations_loaded (length (all_annotations s1))\<rparr>)))"

text \<open>
  \<open>load_current_image\<close>: the working list is a copy, a new list object, of the list
  stored for the file (or of an empty list). An exception inside the \<open>try\<close> is
  caught and shown in a dialog.
\<close>

definition load_current_image :: "session \<Rightarrow> outcome \<times> session" where
  "load_current_image s =
     (if image_files s = [] \<or> int (length (image_files s)) \<le> current_image_index s
      then (Done, s)
      else
        case py_index (image_files s) (current_image_index s) of
          Inl e \<Rightarrow> (Raised e, s)
        | Inr file_name \<Rightarrow>
            (case images_folder s of
               None \<Rightarrow> (Raised AttributeError, s)
             | Some folder \<Rightarrow>
                 (case image_open s folder file_name of
                    None \<Rightarrow> (Done, s\<lparr>dialogs := dialogs s @ [Error_load_image]\<rparr>)
                  | Some img \<Rightarrow>
                      (let s1 = s\<lparr>current_original_image := Some img\<rparr>;
                           stored = (case map_of (all_annotations s1) file_name of
                                       None \<Rightarrow> []
                                     | Some b \<Rightarrow> heap s1 b);
                           (a, s2) = new_list stored s1;
                           s3 = s2\<lparr>current_annotation := a\<rparr>
                       in (case fit_window s3 of
                             (Raised e, s4) \<Rightarrow>
                               (Done, s4\<lparr>dialogs := dialogs s4 @ [Error_load_image]\<rparr>)
                           | (Done, s4) \<Rightarrow>
                               (Done, s4\<lparr>status_var := Image_loaded file_name\<rparr>))))))"

definition jump2image :: "int \<Rightarrow> session \<Rightarrow> outcome \<times> session" where
  "jump2image index s =
     (if int (length (image_files s)) \<le> index \<or> index < 0
      then (Done, s\<lparr>status_var := Index_out_of_range index\<rparr>)
      else load_current_image (s\<lparr>current_image_index := index\<rparr>))"

text \<open>
  \<open>save_annotations\<close>: with an empty working list the entry of the file is deleted
  and the function returns; otherwise the working list object itself is stored under
  the file name and the whole dictionary is written to the annotation file. The status
  line, which the source sets through \<open>root.after(0, ...)\<close>, is set at once.
\<close>

definition save_annotations :: "session \<Rightarrow> outcome \<times> session" where
  "save_annotations s =
     (case images_folder s of
        None \<Rightarrow> (Done, s\<lparr>dialogs := dialogs s @ [Warn_open_folder_first]\<rparr>)
      | Some folder \<Rightarrow>
          if folder = [] then (Done, s\<lparr>dialogs := dialogs s @ [Warn_open_folder_first]\<rparr>)
          else
            (case py_index (image_files s) (current_image_index s) of
               Inl e \<Rightarrow> (Raised e, s)
             | Inr file_name \<Rightarrow>
                 if heap s (current_annotation s) = []
                 then (Done, s\<lparr>all_annotations := dict_del file_name (all_annotations s)\<rparr>)
                 else
                   (let s1 = s\<lparr>all_annotations :=
                                 dict_set file_name (current_annotation s) (all_annotations s)\<rparr>
                    in (Done,
                        s1\<lparr>disk := (disk s1)(folder := Json (annotations_data (annotations_of s1))),
                           status_var := Saved folder\<rparr>))))"

text \<open>
  \<open>open_images_folder\<close>: \<open>folder\<close> is the answer of the directory dialog (empty when
  it was cancelled), \<open>listing\<close> what \<open>os.listdir\<close> returns for it.
\<close>

definition lower_char :: "char \<Rightarrow> char" where
  "lower_char c =
     (let n = (of_char c :: nat) in if 65 \<le> n \<and> n \<le> 90 then char_of (n + 32) else c)"

definition endswith :: "string \<Rightarrow> string \<Rightarrow> bool" where
  "endswith t suf = (length suf \<le> length t \<and> drop (length t - length suf) t = suf)"

definition is_image_file :: "string \<Rightarrow> bool" where
  "is_image_file f =
     (let l = map lower_char f
      in endswith l ''.png'' \<or> endswith l ''.jpg'' \<or> endswith l ''.jpeg''
         \<or> endswith l ''.bmp'' \<or> endswith l ''.gif'')"

definition open_images_folder :: "string \<Rightarrow> string list \<Rightarrow> session \<Rightarrow> outcome \<times> session" where
  "open_images_folder folder listing s =
     (if folder = [] then (Done, s)
      else
        let s1 = s\<lparr>images_folder := Some folder, image_files := filter is_image_file listing\<rparr>
        in if image_files s1 = []
           then (Done, s1\<lparr>dialogs := dialogs s1 @ [Warn_no_images]\<rparr>)
           else
             (let s2 = load_existing_annotations (s1\<lparr>status_var := Folder_loaded folder\<rparr>)
              in load_current_image (s2\<lparr>current_image_index := 0\<rparr>)))"


section \<open>Sessions used as examples\<close>

text \<open>
  What the user does besides the callbacks above: an event bound to a method of the
  canvas (a tool button, a click, a drag), and typing into the two entry fields.
\<close>

definition canvas_event :: "(DrawingCanvas \<Rightarrow> DrawingCanvas) \<Rightarrow> session \<Rightarrow> session" where
  "canvas_event f s = s\<lparr>drawing_canvas := f (drawing_canvas s)\<rparr>"

definition type_texts :: "string \<Rightarrow> string \<Rightarrow> session \<Rightarrow> session" where
  "type_texts q a s = s\<lparr>question_entry := q, answer_entry := a\<rparr>"

text \<open>
  A folder \<open>d\<close> with two images of 400 by 300 pixels and no annotation file, opened in
  a window whose canvas is 800 by 600.
\<close>

definition demo :: session where
  "demo =
     snd (open_images_folder ''d'' [''a.png'', ''notes.txt'', ''B.JPG'']
            (ImageQAAnnotator_init 800 600 (\<lambda>_. Missing) (\<lambda>_ _. Some (400, 300))))"

text \<open>One pair of turns is added for \<open>a.png\<close> and saved.\<close>

definition demo_saved :: session where
  "demo_saved = snd (save_annotations (snd (add_qa_pair (type_texts ''Q1'' ''A1'' demo))))"

text \<open>
  A point is drawn at (100, 50) on the screen while the answer field is the active
  one (the initial setting), and a pair of turns is added: the region belongs to the
  answer.
\<close>

definition demo_answer_region :: session where
  "demo_answer_region =
     snd (add_qa_pair (type_texts ''Q1'' ''A1''
       (snd (on_draw_finished
          (canvas_event (on_left_click 100 50) (canvas_event (set_mode POINT) demo))))))"

text \<open>The same with the question field clicked first: the region belongs to the question.\<close>

definition demo_question_region :: session where
  "demo_question_region =
     snd (add_qa_pair (type_texts ''Q1'' ''A1''
       (snd (on_draw_finished
          (on_click_query_entry
             (canvas_event (on_left_click 100 50) (canvas_event (set_mode POINT) demo)))))))"


text \<open>An image of 10 by 10 pixels opened on a canvas of 1000 by 1000.\<close>

definition demo_small_image :: session where
  "demo_small_image =
     snd (open_images_folder ''d'' [''a.png'']
            (ImageQAAnnotator_init 1000 1000 (\<lambda>_. Missing) (\<lambda>_ _. Some (10, 10))))"



section \<open>What a saved and reloaded annotation set looks like\<close>






section \<open>Invariants used in the proofs\<close>


text \<open>
  The canvas while a polygon is being drawn: either nothing is current and the draft
  is empty, or the item Tk created last is current.
\<close>

definition poly_draft :: "DrawingCanvas \<Rightarrow> bool" where
  "poly_draft c =
     (current_mode c = Some POLY \<and> tk_next_id c \<noteq> 0 \<and>
      (case current_item c of None \<Rightarrow> current_points c = [] | Some i \<Rightarrow> i \<noteq> 0))"

section \<open>The shape draft engine\<close>

lemma poly_draft_start: "poly_draft (set_mode POLY DrawingCanvas_init)"
  by (simp add: poly_draft_def set_mode_def DrawingCanvas_init_def clear_item_def)

lemma poly_draft_click:
  assumes "poly_draft c"
  shows "poly_draft (on_left_click x y c) \<and> current_points (on_left_click x y c) = [x, y]"
  using assms
  by (auto simp: poly_draft_def on_left_click_def clear_item_def tk_create_def tk_delete_def
        Let_def split: option.splits)

lemma poly_draft_clicks: "poly_draft (poly_clicks ps)"
proof (induction ps rule: rev_induct)
  case Nil
  show ?case by (simp add: poly_clicks_def poly_draft_start)
next
  case (snoc p ps)
  then show ?case
    using poly_draft_click [of "poly_clicks ps" "fst p" "snd p"]
    by (simp add: poly_clicks_def)
qed

text \<open>
  However many clicks came before, the polygon draft holds the last click only:
  \<open>on_left_click\<close> calls \<open>clear_item\<close> first, and that empties \<open>current_points\<close>
  whenever an item is current.
\<close>

lemma poly_clicks_last: "current_points (poly_clicks (ps @ [(x, y)])) = [x, y]"
  using poly_draft_click [of "poly_clicks ps" x y] poly_draft_clicks [of ps]
  by (simp add: poly_clicks_def)

text \<open>
  Claim C2 says that in polygon mode every click appends a vertex to the draft and keeps
  the earlier ones, so that clicks at (0,0), (10,0), (5,10) followed by the finishing
  click give the polygon [0,0,10,0,5,10]. The source gives the polygon [5,10]: each
  click first discards the draft of the clicks before it.
\<close>

theorem polygon_three_clicks_commit:
  "fst (on_right_click (poly_clicks [(0, 0), (10, 0), (5, 10)])) =
     Some \<lparr>dmode = POLY, points = [5, 10], draw_id = Some 4, is_Q = None\<rparr>"
  by code_simp

text \<open>
  Claim C5 says that finishing a polygon draft of fewer than three vertices produces
  no shape and adds nothing to the committed shapes. In the source \<open>on_right_click\<close>
  has no such check (\<open>load_draw\<close> has it): after one click, and after two, the finishing
  click returns a polygon of one vertex and appends its item to \<open>items\<close>.
\<close>

theorem polygon_short_commit:
  "fst (on_right_click (poly_clicks [(0, 0)])) =
     Some \<lparr>dmode = POLY, points = [0, 0], draw_id = Some 2, is_Q = None\<rparr> \<and>
   items (snd (on_right_click (poly_clicks [(0, 0)]))) = [2] \<and>
   fst (on_right_click (poly_clicks [(0, 0), (10, 0)])) =
     Some \<lparr>dmode = POLY, points = [10, 0], draw_id = Some 3, is_Q = None\<rparr> \<and>
   items (snd (on_right_click (poly_clicks [(0, 0), (10, 0)]))) = [3]"
  by code_simp

section \<open>The coordinate transform\<close>





section \<open>Navigation\<close>

lemma display_image_frame [simp]:
  "all_annotations (display_image s) = all_annotations s"
  "heap (display_image s) = heap s"
  "next_addr (display_image s) = next_addr s"
  "zoom_factor (display_image s) = zoom_factor s"
  "current_image_index (display_image s) = current_image_index s"
  by (auto simp: display_image_def split: option.splits)

lemma fit_window_frame [simp]:
  "all_annotations (snd (fit_window s)) = all_annotations s"
  "heap (snd (fit_window s)) = heap s"
  "next_addr (snd (fit_window s)) = next_addr s"
  "current_image_index (snd (fit_window s)) = current_image_index s"
  by (auto simp: fit_window_def Let_def split: option.splits prod.splits)

lemma load_current_image_index:
  "current_image_index (snd (load_current_image s)) = current_image_index s"
proof -
  have fit: "current_image_index (snd r) = current_image_index t" if "fit_window t = r" for t r
    using that by auto
  show ?thesis
    by (auto simp: load_current_image_def new_list_def Let_def dest!: fit
          split: option.splits prod.splits sum.splits outcome.splits)
qed

text \<open>
  Claim C9: \<open>jump2image\<close> with an index below 0 or not below the number of image files
  reports the index in the status line, returns normally and changes nothing else, so
  \<open>current_image_index\<close> keeps its value; with an index inside the range it sets
  \<open>current_image_index\<close> to that index.
\<close>

theorem jump2image_bounds:
  "(index < 0 \<or> int (length (image_files s)) \<le> index \<longrightarrow>
      jump2image index s = (Done, s\<lparr>status_var := Index_out_of_range index\<rparr>)) \<and>
   (0 \<le> index \<and> index < int (length (image_files s)) \<longrightarrow>
      current_image_index (snd (jump2image index s)) = index)"
  by (auto simp: jump2image_def load_current_image_index)

theorem jump2image_bounds_witness:
  "image_files demo = [''a.png'', ''B.JPG''] \<and> current_image_index demo = 0 \<and>
   jump2image 2 demo = (Done, demo\<lparr>status_var := Index_out_of_range 2\<rparr>) \<and>
   jump2image (- 1) demo = (Done, demo\<lparr>status_var := Index_out_of_range (- 1)\<rparr>) \<and>
   current_image_index (snd (jump2image 1 demo)) = 1"
proof -
  have files: "image_files demo = [''a.png'', ''B.JPG'']" by code_simp
  have cur: "current_image_index demo = 0" by code_simp
  from jump2image_bounds [of 2 demo] jump2image_bounds [of "- 1" demo]
    jump2image_bounds [of 1 demo] files cur
  show ?thesis by simp
qed


section \<open>Zoom\<close>

lemma zoom_factor_zoom:
  assumes "current_original_image s = Some img"
  shows "zoom_factor (snd (zoom xy k s)) =
           (if k = 0 then 1
            else if 0 < k then min (zoom_factor s * (11 / 10)) max_zoom
            else max (zoom_factor s / (11 / 10)) min_zoom)"
  using assms
  by (auto simp: zoom_def Let_def split: option.splits prod.splits)

lemma zoom_factor_fit_window:
  assumes "current_original_image s = Some (iw, ih)" and "iw \<noteq> 0" and "ih \<noteq> 0"
  shows "min_zoom \<le> zoom_factor (snd (fit_window s))"
  using assms by (auto simp: fit_window_def Let_def)

lemma zoom_factor_resize:
  assumes "current_original_image s = Some (iw, ih)" and "iw \<noteq> 0" and "ih \<noteq> 0"
  shows "min_zoom \<le> zoom_factor (snd (resize_draw_canvas cw ch s))"
  using assms by (auto simp: resize_draw_canvas_def Let_def)

text \<open>
  Claim C6, as amended. With an image loaded (of a width and a height other than 0):
  resetting the zoom sets the factor to 1, which lies in [min_zoom, max_zoom]; a turn of
  the mouse wheel keeps the factor in [min_zoom, max_zoom] when it was there before; fitting
  the image to the window and resizing the canvas clamp the factor from below only, so
  after them it is at least min_zoom. The claim as stated, that the factor is at most
  max_zoom after each of these operations, fails for the last two (and then for the
  wheel): see the counterexample.
\<close>

theorem zoom_factor_clamping:
  assumes "current_original_image s = Some (iw, ih)" and "iw \<noteq> 0" and "ih \<noteq> 0"
  shows "zoom_factor (snd (reset_zoom s)) = 1 \<and> min_zoom \<le> 1 \<and> 1 \<le> max_zoom \<and>
         (min_zoom \<le> zoom_factor s \<and> zoom_factor s \<le> max_zoom \<longrightarrow>
            min_zoom \<le> zoom_factor (snd (on_mousewheel x y delta num s)) \<and>
            zoom_factor (snd (on_mousewheel x y delta num s)) \<le> max_zoom) \<and>
         min_zoom \<le> zoom_factor (snd (fit_window s)) \<and>
         min_zoom \<le> zoom_factor (snd (resize_draw_canvas cw ch s))"
proof -
  have a: "zoom_factor (snd (reset_zoom s)) = 1"
    using zoom_factor_zoom [OF assms(1)] by (simp add: reset_zoom_def)
  have b: "min_zoom \<le> zoom_factor (snd (on_mousewheel x y delta num s)) \<and>
           zoom_factor (snd (on_mousewheel x y delta num s)) \<le> max_zoom"
    if "min_zoom \<le> zoom_factor s" "zoom_factor s \<le> max_zoom"
    using that zoom_factor_zoom [OF assms(1)]
    by (auto simp: on_mousewheel_def min_zoom_def max_zoom_def)
  show ?thesis
    using a b zoom_factor_fit_window [OF assms] zoom_factor_resize [OF assms]
    by (simp add: min_zoom_def max_zoom_def)
qed

theorem zoom_factor_clamping_witness:
  "current_original_image demo = Some (400, 300) \<and> zoom_factor demo = 2 \<and>
   min_zoom \<le> 2 \<and> 2 \<le> max_zoom \<and>
   zoom_factor (snd (reset_zoom demo)) = 1 \<and>
   min_zoom \<le> zoom_factor (snd (on_mousewheel 10 10 120 0 demo)) \<and>
   zoom_factor (snd (on_mousewheel 10 10 120 0 demo)) \<le> max_zoom \<and>
   min_zoom \<le> zoom_factor (snd (fit_window demo)) \<and>
   min_zoom \<le> zoom_factor (snd (resize_draw_canvas 640 480 demo))"
proof -
  have h: "current_original_image demo = Some (400, 300)" by code_simp
  have z: "zoom_factor demo = 2" by code_simp
  from zoom_factor_clamping [OF h, of 10 10 120 0 640 480] z h
  show ?thesis by (simp add: min_zoom_def max_zoom_def)
qed

text \<open>
  An image of 10 by 10 pixels on a canvas of 1000 by 1000: fitting it to the window, or
  resizing the canvas to that size, sets the zoom factor to 100, and a turn of the wheel
  downwards then leaves it at 1000/11, both above max_zoom.
\<close>

theorem fit_window_above_max_zoom_counterexample:
  "zoom_factor (snd (fit_window demo_small_image)) = 100 \<and>
   zoom_factor (snd (resize_draw_canvas 1000 1000 demo_small_image)) = 100 \<and>
   zoom_factor (snd (on_mousewheel 0 0 (- 120) 0 demo_small_image)) = 1000 / 11 \<and>
   max_zoom < 1000 / 11"
  by code_simp

section \<open>Saving\<close>

text \<open>With an empty working list \<open>save_annotations\<close> writes nothing at all.\<close>

lemma save_annotations_empty:
  assumes "heap s (current_annotation s) = []"
  shows "disk (snd (save_annotations s)) = disk s"
  using assms
  by (auto simp: save_annotations_def split: option.splits sum.splits)

text \<open>
  Claim C1 says that saving with an empty working list removes the entry of the current
  image from \<open>all_annotations\<close> and then writes the whole mapping, so that the entry
  is gone from the annotation file. The source deletes the entry and returns before
  the file is written: after one pair was saved for \<open>a.png\<close>, the turns cleared and
  saved again, \<open>all_annotations\<close> is empty and the file still holds the two turns.
\<close>

theorem save_after_clearing:
  "disk demo_saved ''d'' =
     Json [\<lparr>j_image = ''a.png'',
            j_conversations =
              [\<lparr>j_from = ''human'', j_value = ''Q1'', j_visual_refs = None\<rparr>,
               \<lparr>j_from = ''gpt'', j_value = ''A1'', j_visual_refs = None\<rparr>]\<rparr>] \<and>
   heap (clear_qa_pairs True demo_saved) (current_annotation (clear_qa_pairs True demo_saved)) = [] \<and>
   fst (save_annotations (clear_qa_pairs True demo_saved)) = Done \<and>
   all_annotations (snd (save_annotations (clear_qa_pairs True demo_saved))) = [] \<and>
   disk (snd (save_annotations (clear_qa_pairs True demo_saved))) ''d'' =
     Json [\<lparr>j_image = ''a.png'',
            j_conversations =
              [\<lparr>j_from = ''human'', j_value = ''Q1'', j_visual_refs = None\<rparr>,
               \<lparr>j_from = ''gpt'', j_value = ''A1'', j_visual_refs = None\<rparr>]\<rparr>]"
  by code_simp

text \<open>
  Claim C7 says that editing the working list never changes \<open>all_annotations\<close> before
  the next save, also after an earlier save of the same image. In the source that
  earlier save stores the working list object itself in the dictionary (no copy, unlike
  \<open>load_current_image\<close>), so every later edit is an edit of the dictionary's entry:
  after a save of one pair, adding a second pair makes the entry four turns long,
  deleting or clearing empties it, and going to the next image and back brings the
  unsaved pair along.
\<close>

theorem edit_after_save_changes_all_annotations:
  "annotations_of demo_saved =
     [(''a.png'',
       [\<lparr>role = ''human'', text' = ''Q1'', visual_refs = None\<rparr>,
        \<lparr>role = ''gpt'', text' = ''A1'', visual_refs = None\<rparr>])] \<and>
   annotations_of (snd (add_qa_pair (type_texts ''Q2'' ''A2'' demo_saved))) =
     [(''a.png'',
       [\<lparr>role = ''human'', text' = ''Q1'', visual_refs = None\<rparr>,
        \<lparr>role = ''gpt'', text' = ''A1'', visual_refs = None\<rparr>,
        \<lparr>role = ''human'', text' = ''Q2'', visual_refs = None\<rparr>,
        \<lparr>role = ''gpt'', text' = ''A2'', visual_refs = None\<rparr>])] \<and>
   annotations_of (delete_qa_pair (Some 0) None demo_saved) = [(''a.png'', [])] \<and>
   annotations_of (clear_qa_pairs True demo_saved) = [(''a.png'', [])] \<and>
   map text'
     (heap (snd (jump2image 0 (snd (jump2image 1
              (snd (add_qa_pair (type_texts ''Q2'' ''A2'' demo_saved)))))))
        (current_annotation (snd (jump2image 0 (snd (jump2image 1
              (snd (add_qa_pair (type_texts ''Q2'' ''A2'' demo_saved))))))))) =
     [''Q1'', ''A1'', ''Q2'', ''A2'']"
  by code_simp

section \<open>Showing and editing a pair\<close>

text \<open>
  Claim C8 says that \<open>show_qa_pair\<close> shows every region of both turns of the pair. The
  source reads the turn at the even position only, the question: for a pair whose
  answer carries a point and whose question carries none, nothing is drawn and nothing
  is recorded, whichever of the two positions is given. (A point of the question is
  drawn: the last line.)
\<close>

theorem show_qa_pair_skips_answer_regions:
  "heap demo_answer_region (current_annotation demo_answer_region) =
     [\<lparr>role = ''human'', text' = ''Q1'', visual_refs = None\<rparr>,
      \<lparr>role = ''gpt'', text' = ''A1'',
       visual_refs = Some [\<lparr>coords = [50, 25], mode = POINT\<rparr>]\<rparr>] \<and>
   fst (show_qa_pair 0 demo_answer_region) = Done \<and>
   current_draw_info (snd (show_qa_pair 0 demo_answer_region)) = [] \<and>
   tk_items (drawing_canvas (snd (show_qa_pair 0 demo_answer_region))) = [(1, Tk_image 0 0)] \<and>
   fst (show_qa_pair 1 demo_answer_region) = Done \<and>
   current_draw_info (snd (show_qa_pair 1 demo_answer_region)) = [] \<and>
   tk_items (drawing_canvas (snd (show_qa_pair 1 demo_answer_region))) = [(1, Tk_image 0 0)] \<and>
   tk_items (drawing_canvas (snd (show_qa_pair 0 demo_question_region))) =
     [(1, Tk_image 0 0), (3, Tk_oval [92, 42, 108, 58])]"
  by code_simp

text \<open>
  Claim C10 says that adding a pair with non-empty texts never raises an exception,
  every pending region carrying the key \<open>is_Q\<close>. In the source \<open>show_qa_pair\<close>, which
  \<open>edit_qa_pair\<close> calls, records the regions it shows without that key: after a pair
  whose question has a region is taken back for editing, adding it again raises
  KeyError.
\<close>

theorem commit_after_edit_raises:
  "heap demo_question_region (current_annotation demo_question_region) =
     [\<lparr>role = ''human'', text' = ''Q1'',
       visual_refs = Some [\<lparr>coords = [50, 25], mode = POINT\<rparr>]\<rparr>,
      \<lparr>role = ''gpt'', text' = ''A1'', visual_refs = None\<rparr>] \<and>
   fst (edit_qa_pair (Some 0) demo_question_region) = Done \<and>
   question_entry (snd (edit_qa_pair (Some 0) demo_question_region)) = ''Q1'' \<and>
   answer_entry (snd (edit_qa_pair (Some 0) demo_question_region)) = ''A1'' \<and>
   current_draw_info (snd (edit_qa_pair (Some 0) demo_question_region)) =
     [\<lparr>dmode = POINT, points = [100, 50], draw_id = Some 3, is_Q = None\<rparr>] \<and>
   fst (add_qa_pair (snd (edit_qa_pair (Some 0) demo_question_region))) = Raised KeyError"
  by code_simp


section \<open>Saving and loading again\<close>
















end
